theory Spec2Isabelle
  imports Main "HOL-Library.Sublist"
begin

section \<open>The edge proxy worker: data model\<close>

text \<open>
  The worker of \<^verbatim>\<open>src/index.ts\<close> answers one HTTP request at a time. It reads its
  configuration (\<^verbatim>\<open>Env\<close>), the request, the edge cache and the upstream service, and
  returns a response; its only lasting effect is a write to the edge cache.

  Strings are lists of characters, read as code units below 256. The platform objects
  are modelled by what the handler observes of them:
  \<^item> \<^verbatim>\<open>URLSearchParams\<close> is the ordered list of name/value pairs, duplicates kept;
  \<^item> \<^verbatim>\<open>Headers\<close> is a map from the lower-cased header name to its value (the platform
    compares header names without regard to case);
  \<^item> a \<^verbatim>\<open>Response\<close> is its status, headers and body (\<open>None\<close> is the null body);
  \<^item> the upstream URL is the configured base with the serialised parameters as its
    query; it is kept as the pair of both, which determines its text;
  \<^item> the calls to \<^verbatim>\<open>cache.match\<close>, \<^verbatim>\<open>fetch\<close> and \<^verbatim>\<open>cache.put\<close> are recorded, in order,
    as the events of the request.
  Construction of a \<^verbatim>\<open>URL\<close> from the configured base and of a \<^verbatim>\<open>Response\<close> from a
  status is taken to succeed. The handler \<open>fetch\<close> takes a resolved upstream fetch to
  deliver its body; \<open>fetch_with_body_read\<close> is the handler without that assumption.
\<close>

type_synonym params = "(string \<times> string) list"

type_synonym headers = "string \<Rightarrow> string option"

record response =
  status :: nat
  headers :: headers
  body :: "string option"

record request =
  http_method :: string
  pathname :: string
  searchParams :: params
  origin_header :: "string option"

text \<open>
  The three handlers of the repository share the origin list and the TTL of their
  configuration. \<^verbatim>\<open>CACHE_TTL\<close> is \<open>None\<close> when the variable is unset.
\<close>

record env_common =
  CORS_ORIGIN :: string
  CACHE_TTL :: "string option"

record env = env_common +
  UPSTREAM_FLOOD :: string
  UPSTREAM_WATER :: string

record env_single = env_common +
  UPSTREAM :: string

datatype kind = Flood | Water

record upstream_url =
  upstream_base :: string
  upstream_search :: params

datatype fetch_outcome = Rejected | Resolved response

datatype event =
  Cache_match upstream_url
| Upstream_fetch upstream_url
| Cache_put upstream_url response

text \<open>
  What the platform gives the handler: the content of the edge cache, the outcome of a
  \<^verbatim>\<open>GET\<close> of an upstream URL within the eight seconds of the timer (\<open>Rejected\<close> is
  the abort or the network error that the \<^verbatim>\<open>catch\<close> block receives), and the text of a
  number beyond the range where a double holds every integer exactly.
\<close>

record platform =
  cache_match :: "upstream_url \<Rightarrow> response option"
  upstream_fetch :: "upstream_url \<Rightarrow> fetch_outcome"
  number_beyond_safe :: "int \<Rightarrow> string"

section \<open>Strings and numbers of the language\<close>

definition lower_char :: "char \<Rightarrow> char" where
  "lower_char c =
     (let n = (of_char c :: nat) in if 65 \<le> n \<and> n \<le> 90 then char_of (n + 32) else c)"

definition lower :: "string \<Rightarrow> string" where
  "lower s = map lower_char s"

definition js_space :: "char \<Rightarrow> bool" where
  "js_space c = (c \<in> set [CHR 0x09, CHR 0x0A, CHR 0x0B, CHR 0x0C, CHR 0x0D, CHR 0x20, CHR 0xA0])"

definition trim :: "string \<Rightarrow> string" where
  "trim s = rev (dropWhile js_space (rev (dropWhile js_space s)))"

text \<open>\<^verbatim>\<open>s.split(",")\<close>: the pieces between the separators, at least one piece.\<close>

fun split :: "char \<Rightarrow> string \<Rightarrow> string list" where
  "split d [] = [[]]"
| "split d (c # cs) =
     (if c = d then [] # split d cs
      else (case split d cs of [] \<Rightarrow> [[c]] | piece # pieces \<Rightarrow> (c # piece) # pieces))"

definition is_digit :: "char \<Rightarrow> bool" where
  "is_digit c = (let n = (of_char c :: nat) in 48 \<le> n \<and> n \<le> 57)"

definition digits_value :: "string \<Rightarrow> nat" where
  "digits_value ds = foldl (\<lambda>acc c. 10 * acc + (of_char c - 48)) 0 ds"

datatype js_number = NaN | Num int

text \<open>
  \<^verbatim>\<open>parseInt(s, 10)\<close>: leading white space is skipped, one sign is read, then the
  longest run of decimal digits; no digit gives \<^verbatim>\<open>NaN\<close>. \<open>Num n\<close> stands for the double
  nearest to \<open>n\<close>.
\<close>

definition parseInt10 :: "string \<Rightarrow> js_number" where
  "parseInt10 s =
     (let t = dropWhile js_space s;
          negative = (case t of [] \<Rightarrow> False | c # _ \<Rightarrow> c = CHR ''-'');
          u = (case t of [] \<Rightarrow> [] | c # r \<Rightarrow> if c = CHR ''-'' \<or> c = CHR ''+'' then r else t);
          ds = takeWhile is_digit u
      in if ds = [] then NaN
         else Num (if negative then - int (digits_value ds) else int (digits_value ds)))"

fun nat_text :: "nat \<Rightarrow> string" where
  "nat_text n =
     (if n < 10 then [char_of (48 + n)]
      else nat_text (n div 10) @ [char_of (48 + n mod 10)])"

text \<open>
  The text of a number inside a template literal. Up to \<open>2 ^ 53\<close> in size the double
  is the integer itself and is printed in decimal digits; beyond, the platform prints
  the rounded value.
\<close>

definition number_text :: "(int \<Rightarrow> string) \<Rightarrow> js_number \<Rightarrow> string" where
  "number_text beyond x =
     (case x of
        NaN \<Rightarrow> ''NaN''
      | Num n \<Rightarrow>
          if \<bar>n\<bar> \<le> 9007199254740992
          then (if n < 0 then CHR ''-'' # nat_text (nat (- n)) else nat_text (nat n))
          else beyond n)"

section \<open>Headers, parameters and responses of the platform\<close>

definition set_header :: "headers \<Rightarrow> string \<Rightarrow> string \<Rightarrow> headers" where
  "set_header h name v = h(lower name \<mapsto> v)"

definition no_headers :: headers where
  "no_headers = (\<lambda>name. None)"

text \<open>\<^verbatim>\<open>sp.has(name)\<close> and \<^verbatim>\<open>sp.set(name, value)\<close> of \<^verbatim>\<open>URLSearchParams\<close>.\<close>

definition has :: "params \<Rightarrow> string \<Rightarrow> bool" where
  "has sp name = (name \<in> set (map fst sp))"

fun set_first :: "params \<Rightarrow> string \<Rightarrow> string \<Rightarrow> params" where
  "set_first [] name v = []"
| "set_first (p # sp) name v =
     (if fst p = name then (name, v) # filter (\<lambda>q. fst q \<noteq> name) sp
      else p # set_first sp name v)"

definition set_param :: "params \<Rightarrow> string \<Rightarrow> string \<Rightarrow> params" where
  "set_param sp name v = (if has sp name then set_first sp name v else sp @ [(name, v)])"

text \<open>\<^verbatim>\<open>sp.getAll(name)\<close>: the values given for a name, in order.\<close>

definition getAll :: "params \<Rightarrow> string \<Rightarrow> string list" where
  "getAll sp name = map snd (filter (\<lambda>q. fst q = name) sp)"

text \<open>
  \<^verbatim>\<open>new Response(body, { status, headers })\<close>. A body given as a string brings its
  content type when the headers name none; a null body, a buffer and a stream bring none.
\<close>

datatype body_init = Null_body | String_body string | Bytes_body string

definition new_Response :: "body_init \<Rightarrow> nat \<Rightarrow> headers \<Rightarrow> response" where
  "new_Response b st h =
     (case b of
        Null_body \<Rightarrow> \<lparr>status = st, headers = h, body = None\<rparr>
      | Bytes_body bytes \<Rightarrow> \<lparr>status = st, headers = h, body = Some bytes\<rparr>
      | String_body s \<Rightarrow>
          \<lparr>status = st,
           headers = (case h ''content-type'' of
                        None \<Rightarrow> h(''content-type'' \<mapsto> ''text/plain;charset=UTF-8'')
                      | Some _ \<Rightarrow> h),
           body = Some s\<rparr>)"

definition body_of :: "response \<Rightarrow> body_init" where
  "body_of res = (case body res of None \<Rightarrow> Null_body | Some bytes \<Rightarrow> Bytes_body bytes)"

definition ok :: "response \<Rightarrow> bool" where
  "ok res = (200 \<le> status res \<and> status res \<le> 299)"

text \<open>\<^verbatim>\<open>await res.arrayBuffer()\<close>: the bytes of the body, none for a null body.\<close>

definition arrayBuffer :: "response \<Rightarrow> string" where
  "arrayBuffer res = (case body res of None \<Rightarrow> [] | Some bytes \<Rightarrow> bytes)"

section \<open>The functions of the worker\<close>

text \<open>
  \<^verbatim>\<open>withCORS\<close> is the same text in the three source files. \<open>reqOrigin\<close> is \<open>None\<close>
  for \<^verbatim>\<open>undefined\<close>; the test \<^verbatim>\<open>reqOrigin && ...\<close> fails for \<^verbatim>\<open>undefined\<close> and for the
  empty string.
\<close>

definition withCORS :: "response \<Rightarrow> string \<Rightarrow> string option \<Rightarrow> response" where
  "withCORS res originHeader reqOrigin =
     (let allowList = map trim (split CHR '','' originHeader);
          h = headers res;
          h = (case reqOrigin of
                 Some origin \<Rightarrow>
                   if origin \<noteq> [] \<and> (''*'' \<in> set allowList \<or> origin \<in> set allowList)
                   then set_header h ''Access-Control-Allow-Origin'' origin
                   else if ''*'' \<in> set allowList
                   then set_header h ''Access-Control-Allow-Origin'' ''*''
                   else h
               | None \<Rightarrow>
                   if ''*'' \<in> set allowList
                   then set_header h ''Access-Control-Allow-Origin'' ''*''
                   else h);
          h = set_header h ''Access-Control-Allow-Methods'' ''GET,HEAD,OPTIONS'';
          h = set_header h ''Access-Control-Allow-Headers'' ''Content-Type'';
          h = set_header h ''Vary'' ''Origin''
      in new_Response (body_of res) (status res) h)"

text \<open>The statement \<^verbatim>\<open>if (!sp.has(name)) sp.set(name, value)\<close>.\<close>

definition set_if_absent :: "params \<Rightarrow> string \<Rightarrow> string \<Rightarrow> params" where
  "set_if_absent sp name v = (if \<not> has sp name then set_param sp name v else sp)"

definition applyDefaults :: "params \<Rightarrow> kind \<Rightarrow> params" where
  "applyDefaults sp k =
     (let sp = set_if_absent sp ''f'' ''geojson'';
          sp = set_if_absent sp ''returnGeometry'' ''true'';
          sp = set_if_absent sp ''outFields'' ''*'';
          sp = set_if_absent sp ''where'' ''1=1''
      in (case k of
            Flood \<Rightarrow> set_if_absent sp ''resultRecordCount'' ''500''
          | Water \<Rightarrow> set_if_absent sp ''resultRecordCount'' ''1000''))"

text \<open>\<^verbatim>\<open>request.headers.get("Origin") || undefined\<close>.\<close>

definition reqOrigin_of :: "request \<Rightarrow> string option" where
  "reqOrigin_of req =
     (case origin_header req of
        None \<Rightarrow> None
      | Some origin \<Rightarrow> if origin = [] then None else Some origin)"

text \<open>\<^verbatim>\<open>url.pathname.replace(/\/+$/, "")\<close> and the choice of the dataset kind.\<close>

definition trim_slashes :: "string \<Rightarrow> string" where
  "trim_slashes p = rev (dropWhile (\<lambda>c. c = CHR ''/'') (rev p))"

definition route :: "string \<Rightarrow> kind" where
  "route p = (if trim_slashes p = ''/water'' then Water else Flood)"

text \<open>
  The upstream URL of a \<^verbatim>\<open>GET\<close> request: the base of the routed kind, with the
  parameters of the request and the defaults as its query.
\<close>

definition upstream_of :: "env \<Rightarrow> request \<Rightarrow> upstream_url" where
  "upstream_of e req =
     (let k = route (pathname req);
          upstreamBase = (if k = Flood then UPSTREAM_FLOOD e else UPSTREAM_WATER e);
          sp = applyDefaults (searchParams req) k
      in \<lparr>upstream_base = upstreamBase, upstream_search = sp\<rparr>)"

text \<open>The cache key is the request for the text of the upstream URL.\<close>

definition cacheKeyFromURL :: "upstream_url \<Rightarrow> upstream_url" where
  "cacheKeyFromURL u = u"

text \<open>The answer of the \<^verbatim>\<open>catch\<close> block, before the CORS headers.\<close>

definition timeout_response :: response where
  \<open>timeout_response =
     new_Response (String_body ''{"error":"upstream_timeout_or_network"}'') 504
       (set_header no_headers ''Content-Type'' ''application/json'')\<close>

text \<open>\<^verbatim>\<open>parseInt(env.CACHE_TTL || "3600", 10)\<close>, as the template literal prints it.\<close>

definition ttl_text :: "(int \<Rightarrow> string) \<Rightarrow> string option \<Rightarrow> string" where
  "ttl_text beyond ttl_var =
     number_text beyond
       (parseInt10 (case ttl_var of
                      None \<Rightarrow> ''3600''
                    | Some s \<Rightarrow> if s = [] then ''3600'' else s))"

definition cache_control :: "string \<Rightarrow> string" where
  "cache_control ttl =
     ''public, max-age='' @ ttl @ '', s-maxage='' @ ttl @ '', stale-while-revalidate=60''"

text \<open>The block that normalises the headers of the upstream response: \<^verbatim>\<open>fresh\<close>.\<close>

definition fresh_response :: "(int \<Rightarrow> string) \<Rightarrow> string option \<Rightarrow> response \<Rightarrow> response" where
  "fresh_response beyond ttl_var upstreamRes =
     (let ttl = ttl_text beyond ttl_var;
          h = headers upstreamRes;
          h = set_header h ''Content-Type'' ''application/json; charset=utf-8'';
          h = set_header h ''Cache-Control'' (cache_control ttl)
      in new_Response (Bytes_body (arrayBuffer upstreamRes)) (status upstreamRes) h)"

text \<open>
  The handler of \<^verbatim>\<open>src/index.ts\<close>. The write to the cache that the handler registers
  with \<^verbatim>\<open>ctx.waitUntil\<close> is the event \<open>Cache_put\<close>.
\<close>

definition fetch :: "platform \<Rightarrow> env \<Rightarrow> request \<Rightarrow> response \<times> event list" where
  "fetch p e req =
     (let reqOrigin = reqOrigin_of req in
      if http_method req = ''OPTIONS''
      then (withCORS (new_Response Null_body 204 no_headers) (CORS_ORIGIN e) reqOrigin, [])
      else if http_method req \<noteq> ''GET''
      then (withCORS (new_Response (String_body ''Method Not Allowed'') 405 no_headers)
              (CORS_ORIGIN e) reqOrigin, [])
      else
        let upstream = upstream_of e req;
            key = cacheKeyFromURL upstream
        in (case cache_match p key of
              Some cached \<Rightarrow> (withCORS cached (CORS_ORIGIN e) reqOrigin, [Cache_match key])
            | None \<Rightarrow>
                (case upstream_fetch p upstream of
                   Rejected \<Rightarrow>
                     (withCORS timeout_response (CORS_ORIGIN e) reqOrigin,
                      [Cache_match key, Upstream_fetch upstream])
                 | Resolved upstreamRes \<Rightarrow>
                     let fresh = fresh_response (number_beyond_safe p) (CACHE_TTL e) upstreamRes
                     in (withCORS fresh (CORS_ORIGIN e) reqOrigin,
                         [Cache_match key, Upstream_fetch upstream] @
                         (if ok upstreamRes then [Cache_put key fresh] else [])))))"

text \<open>
  The handler without the assumption on the body. \<^verbatim>\<open>await upstreamRes.arrayBuffer()\<close>
  stands after the \<^verbatim>\<open>try\<close> block, once the timer is cleared: when the fetch has
  resolved and the read of the body is rejected (\<open>body_rejected\<close> of the upstream URL),
  no \<^verbatim>\<open>catch\<close> receives the rejection and the handler ends with it instead of a
  response. In every other case the handler answers as \<open>fetch\<close> does.
\<close>

datatype error = Body_read_rejected

definition fetch_with_body_read ::
  "platform \<Rightarrow> (upstream_url \<Rightarrow> bool) \<Rightarrow> env \<Rightarrow> request \<Rightarrow> (error + response) \<times> event list" where
  "fetch_with_body_read p body_rejected e req =
     (let answered = (Inr (fst (fetch p e req)), snd (fetch p e req)) in
      if http_method req = ''OPTIONS'' then answered
      else if http_method req \<noteq> ''GET'' then answered
      else
        let upstream = upstream_of e req;
            key = cacheKeyFromURL upstream
        in (case cache_match p key of
              Some cached \<Rightarrow> answered
            | None \<Rightarrow>
                (case upstream_fetch p upstream of
                   Rejected \<Rightarrow> answered
                 | Resolved upstreamRes \<Rightarrow>
                     if body_rejected upstream
                     then (Inl Body_read_rejected, [Cache_match key, Upstream_fetch upstream])
                     else answered)))"

text \<open>
  The handler of the single-endpoint source file \<^verbatim>\<open>src/unnamed/part_001\<close>: one
  upstream, the defaults written in the handler, and the write to the cache after
  every resolved fetch.
\<close>

definition fetch_part_001 ::
  "platform \<Rightarrow> env_single \<Rightarrow> request \<Rightarrow> response \<times> event list" where
  "fetch_part_001 p e req =
     (let reqOrigin = reqOrigin_of req in
      if http_method req = ''OPTIONS''
      then (withCORS (new_Response Null_body 204 no_headers) (CORS_ORIGIN e) reqOrigin, [])
      else if http_method req \<noteq> ''GET''
      then (withCORS (new_Response (String_body ''Method Not Allowed'') 405 no_headers)
              (CORS_ORIGIN e) reqOrigin, [])
      else
        let sp = searchParams req;
            sp = set_if_absent sp ''f'' ''geojson'';
            sp = set_if_absent sp ''returnGeometry'' ''true'';
            sp = set_if_absent sp ''resultRecordCount'' ''200'';
            sp = set_if_absent sp ''outFields'' ''*'';
            upstream = \<lparr>upstream_base = UPSTREAM e, upstream_search = sp\<rparr>;
            cacheKey = cacheKeyFromURL upstream
        in (case cache_match p cacheKey of
              Some cached \<Rightarrow>
                (withCORS cached (CORS_ORIGIN e) reqOrigin, [Cache_match cacheKey])
            | None \<Rightarrow>
                (case upstream_fetch p upstream of
                   Rejected \<Rightarrow>
                     (withCORS timeout_response (CORS_ORIGIN e) reqOrigin,
                      [Cache_match cacheKey, Upstream_fetch upstream])
                 | Resolved upstreamRes \<Rightarrow>
                     let fresh = fresh_response (number_beyond_safe p) (CACHE_TTL e) upstreamRes
                     in (withCORS fresh (CORS_ORIGIN e) reqOrigin,
                         [Cache_match cacheKey, Upstream_fetch upstream,
                          Cache_put cacheKey fresh]))))"

text \<open>The edge cache once the writes among the events of a request are done.\<close>

fun cache_after ::
  "(upstream_url \<Rightarrow> response option) \<Rightarrow> event list \<Rightarrow> (upstream_url \<Rightarrow> response option)" where
  "cache_after c [] = c"
| "cache_after c (Cache_put key res # evs) = cache_after (c(key \<mapsto> res)) evs"
| "cache_after c (_ # evs) = cache_after c evs"

section \<open>Evaluation of the text functions\<close>

declare nat_text.simps [simp del]

lemma lower_names:
  "lower ''Access-Control-Allow-Origin'' = ''access-control-allow-origin''"
  "lower ''Access-Control-Allow-Methods'' = ''access-control-allow-methods''"
  "lower ''Access-Control-Allow-Headers'' = ''access-control-allow-headers''"
  "lower ''Vary'' = ''vary''"
  "lower ''Content-Type'' = ''content-type''"
  "lower ''Cache-Control'' = ''cache-control''"
  by code_simp+

lemmas evals =
  fetch_def upstream_of_def cacheKeyFromURL_def route_def
  trim_slashes_def applyDefaults_def set_if_absent_def set_param_def has_def getAll_def
  reqOrigin_of_def Let_def fresh_response_def new_Response_def arrayBuffer_def ok_def
  set_header_def lower_names withCORS_def body_of_def trim_def js_space_def
  no_headers_def timeout_response_def cache_control_def

section \<open>Query parameters\<close>

lemma set_if_absent_append:
  "set_if_absent sp n v = sp @ (if has sp n then [] else [(n, v)])"
  by (simp add: set_if_absent_def set_param_def)

lemma has_set_if_absent: "has (set_if_absent sp n v) m = (m = n \<or> has sp m)"
  by (auto simp: set_if_absent_append has_def)

lemma set_if_absent_present: "has sp n \<Longrightarrow> set_if_absent sp n v = sp"
  by (simp add: set_if_absent_def)

lemma getAll_set_if_absent:
  "getAll (set_if_absent sp n v) m =
     (if has sp n \<or> m \<noteq> n then getAll sp m else [v])"
  by (auto simp: set_if_absent_append getAll_def has_def filter_empty_conv)

lemma getAll_set_if_absent_other:
  "m \<noteq> n \<Longrightarrow> getAll (set_if_absent sp n v) m = getAll sp m"
  by (simp add: getAll_set_if_absent)

lemma getAll_set_if_absent_kept:
  "has sp m \<Longrightarrow> getAll (set_if_absent sp n v) m = getAll sp m"
  by (auto simp: getAll_set_if_absent)

lemma getAll_set_if_absent_new:
  "\<not> has sp n \<Longrightarrow> getAll (set_if_absent sp n v) n = [v]"
  by (simp add: getAll_set_if_absent)

lemma prefix_set_if_absent: "prefix a b \<Longrightarrow> prefix a (set_if_absent b n v)"
  by (simp add: set_if_absent_append prefix_def) auto

lemma has_applyDefaults:
  "has (applyDefaults sp k) m =
     (m \<in> {''f'', ''returnGeometry'', ''outFields'', ''where'', ''resultRecordCount''} \<or>
      has sp m)"
  by (cases k) (auto simp add: applyDefaults_def has_set_if_absent)

lemma getAll_applyDefaults_present:
  "has sp m \<Longrightarrow> getAll (applyDefaults sp k) m = getAll sp m"
  by (cases k)
    (simp_all add: applyDefaults_def getAll_set_if_absent_kept has_set_if_absent)

lemma applyDefaults_prefix: "prefix sp (applyDefaults sp k)"
  by (cases k) (simp_all add: applyDefaults_def prefix_set_if_absent)

lemma applyDefaults_fills:
  "\<not> has sp ''f'' \<Longrightarrow> getAll (applyDefaults sp k) ''f'' = [''geojson'']"
  "\<not> has sp ''returnGeometry'' \<Longrightarrow>
     getAll (applyDefaults sp k) ''returnGeometry'' = [''true'']"
  "\<not> has sp ''outFields'' \<Longrightarrow> getAll (applyDefaults sp k) ''outFields'' = [''*'']"
  "\<not> has sp ''where'' \<Longrightarrow> getAll (applyDefaults sp k) ''where'' = [''1=1'']"
  "\<not> has sp ''resultRecordCount'' \<Longrightarrow>
     getAll (applyDefaults sp Flood) ''resultRecordCount'' = [''500'']"
  "\<not> has sp ''resultRecordCount'' \<Longrightarrow>
     getAll (applyDefaults sp Water) ''resultRecordCount'' = [''1000'']"
  by (cases k; simp add: applyDefaults_def getAll_set_if_absent_other
        getAll_set_if_absent_new has_set_if_absent)+

section \<open>The CORS headers\<close>

lemma status_withCORS: "status (withCORS res oh ro) = status res"
  by (simp add: withCORS_def new_Response_def body_of_def Let_def split: option.splits)

lemma body_withCORS: "body (withCORS res oh ro) = body res"
  by (simp add: withCORS_def new_Response_def body_of_def Let_def split: option.splits)

lemma headers_new_Response_of_body: "headers (new_Response (body_of res) st h) = h"
  by (simp add: new_Response_def body_of_def split: option.splits)

lemma headers_withCORS:
  "headers (withCORS res oh ro) name =
     (if name = ''vary'' then Some ''Origin''
      else if name = ''access-control-allow-headers'' then Some ''Content-Type''
      else if name = ''access-control-allow-methods'' then Some ''GET,HEAD,OPTIONS''
      else if name = ''access-control-allow-origin'' then
        (case ro of
           Some origin \<Rightarrow>
             if origin \<noteq> [] \<and>
                (''*'' \<in> set (map trim (split CHR '','' oh)) \<or>
                 origin \<in> set (map trim (split CHR '','' oh)))
             then Some origin
             else if ''*'' \<in> set (map trim (split CHR '','' oh)) then Some ''*''
             else headers res name
         | None \<Rightarrow>
             if ''*'' \<in> set (map trim (split CHR '','' oh)) then Some ''*''
             else headers res name)
      else headers res name)"
  unfolding withCORS_def Let_def headers_new_Response_of_body set_header_def lower_names
  by (simp split: option.splits)

section \<open>The handler, case by case\<close>



lemma fetch_hit:
  "http_method req = ''GET'' \<Longrightarrow> cache_match p (upstream_of e req) = Some cached \<Longrightarrow>
   fetch p e req =
     (withCORS cached (CORS_ORIGIN e) (reqOrigin_of req), [Cache_match (upstream_of e req)])"
  by (simp add: fetch_def cacheKeyFromURL_def)

lemma fetch_rejected:
  "http_method req = ''GET'' \<Longrightarrow> cache_match p (upstream_of e req) = None \<Longrightarrow>
   upstream_fetch p (upstream_of e req) = Rejected \<Longrightarrow>
   fetch p e req =
     (withCORS timeout_response (CORS_ORIGIN e) (reqOrigin_of req),
      [Cache_match (upstream_of e req), Upstream_fetch (upstream_of e req)])"
  by (simp add: fetch_def cacheKeyFromURL_def Let_def)

lemma fetch_resolved:
  "http_method req = ''GET'' \<Longrightarrow> cache_match p (upstream_of e req) = None \<Longrightarrow>
   upstream_fetch p (upstream_of e req) = Resolved up \<Longrightarrow>
   fetch p e req =
     (withCORS (fresh_response (number_beyond_safe p) (CACHE_TTL e) up) (CORS_ORIGIN e)
        (reqOrigin_of req),
      [Cache_match (upstream_of e req), Upstream_fetch (upstream_of e req)] @
      (if ok up
       then [Cache_put (upstream_of e req)
               (fresh_response (number_beyond_safe p) (CACHE_TTL e) up)]
       else []))"
  by (simp add: fetch_def cacheKeyFromURL_def Let_def)

lemma fetch_is_withCORS:
  "\<exists>res. fst (fetch p e req) = withCORS res (CORS_ORIGIN e) (reqOrigin_of req)"
  by (auto simp: fetch_def Let_def split: option.splits fetch_outcome.splits)

lemma fetch_GET_events:
  "http_method req = ''GET'' \<Longrightarrow>
   \<exists>rest. snd (fetch p e req) = Cache_match (upstream_of e req) # rest"
  by (auto simp: fetch_def Let_def cacheKeyFromURL_def
      split: option.splits fetch_outcome.splits)

lemma fetch_upstream_events:
  "Upstream_fetch u \<in> set (snd (fetch p e req)) \<Longrightarrow> u = upstream_of e req"
  by (auto simp: fetch_def Let_def cacheKeyFromURL_def
      split: option.splits fetch_outcome.splits if_splits)

lemma upstream_search_upstream_of:
  "upstream_search (upstream_of e req) =
     applyDefaults (searchParams req) (route (pathname req))"
  by (simp add: upstream_of_def Let_def)

lemma trim_slashes_append: "trim_slashes (''/water'' @ replicate n CHR ''/'') = ''/water''"
  by (simp add: trim_slashes_def dropWhile_append3)

lemma trim_slashes_decompose: "\<exists>n. p = trim_slashes p @ replicate n CHR ''/''"
proof -
  let ?P = "\<lambda>c. c = CHR ''/''"
  let ?t = "takeWhile ?P (rev p)"
  have "\<forall>y \<in> set ?t. y = CHR ''/''"
    by (auto dest: set_takeWhileD)
  then have "replicate (length ?t) CHR ''/'' = ?t"
    by (rule replicate_length_same)
  then have t: "rev ?t = replicate (length ?t) CHR ''/''"
    by (metis rev_replicate)
  have "rev p = ?t @ dropWhile ?P (rev p)" by simp
  then have "rev (rev p) = rev (?t @ dropWhile ?P (rev p))" by (rule arg_cong)
  then have "p = rev (dropWhile ?P (rev p)) @ rev ?t"
    by (simp only: rev_rev_ident rev_append)
  with t have "p = trim_slashes p @ replicate (length ?t) CHR ''/''"
    by (simp add: trim_slashes_def)
  then show ?thesis ..
qed

lemma route_Water: "route p = Water \<longleftrightarrow> (\<exists>n. p = ''/water'' @ replicate n CHR ''/'')"
proof
  assume "route p = Water"
  then have "trim_slashes p = ''/water''"
    by (simp add: route_def split: if_splits)
  with trim_slashes_decompose [of p] show "\<exists>n. p = ''/water'' @ replicate n CHR ''/''"
    by simp
next
  assume "\<exists>n. p = ''/water'' @ replicate n CHR ''/''"
  then show "route p = Water"
    using trim_slashes_append by (auto simp: route_def)
qed

lemma route_Flood: "route p = Flood \<longleftrightarrow> (\<forall>n. p \<noteq> ''/water'' @ replicate n CHR ''/'')"
  using route_Water [of p] by (cases "route p") auto

lemma fetch_cors_headers:
  "headers (fst (fetch p e req)) ''access-control-allow-methods'' = Some ''GET,HEAD,OPTIONS''"
  "headers (fst (fetch p e req)) ''access-control-allow-headers'' = Some ''Content-Type''"
  "headers (fst (fetch p e req)) ''vary'' = Some ''Origin''"
  using fetch_is_withCORS [of p e req] by (auto simp: headers_withCORS)

section \<open>The text of the TTL\<close>

lemma is_digit_char_of: "d < 10 \<Longrightarrow> is_digit (char_of (48 + d :: nat))"
  by (simp add: is_digit_def)

lemma nat_text_digits: "c \<in> set (nat_text n) \<Longrightarrow> is_digit c"
proof (induction n rule: nat_text.induct)
  case (1 n)
  show ?case
  proof (cases "n < 10")
    case True
    with "1.prems" show ?thesis
      by (simp add: nat_text.simps [of n] is_digit_char_of)
  next
    case False
    with "1.prems" "1.IH" show ?thesis
      by (auto simp: nat_text.simps [of n] is_digit_char_of)
  qed
qed

lemma nat_text_not_Nil: "nat_text n \<noteq> []"
  by (simp add: nat_text.simps [of n])

lemma digits_value_snoc:
  "digits_value (ds @ [c]) = 10 * digits_value ds + (of_char c - 48)"
  by (simp add: digits_value_def)

lemma digits_value_nat_text: "digits_value (nat_text n) = n"
proof (induction n rule: nat_text.induct)
  case (1 n)
  show ?case
  proof (cases "n < 10")
    case True
    then show ?thesis
      by (simp add: nat_text.simps [of n] digits_value_def)
  next
    case False
    with "1.IH" show ?thesis
      by (simp add: nat_text.simps [of n] digits_value_snoc)
  qed
qed

lemma is_digit_plain:
  "is_digit c \<Longrightarrow> \<not> js_space c \<and> c \<noteq> CHR ''-'' \<and> c \<noteq> CHR ''+''"
  by (auto simp: is_digit_def js_space_def)

lemma parseInt10_digits:
  assumes "ds \<noteq> []" and "\<forall>c \<in> set ds. is_digit c"
  shows "parseInt10 ds = Num (int (digits_value ds))"
proof -
  from assms(1) obtain c r where cr: "ds = c # r"
    by (cases ds) auto
  with assms(2) have "is_digit c"
    by simp
  then have plain: "\<not> js_space c" "c \<noteq> CHR ''-''" "c \<noteq> CHR ''+''"
    using is_digit_plain by auto
  have tw: "takeWhile is_digit ds = ds"
    using assms(2) by (simp add: takeWhile_eq_all_conv)
  have dw: "dropWhile js_space ds = ds"
    using cr plain by simp
  have sign: "(case ds of [] \<Rightarrow> False | c # _ \<Rightarrow> c = CHR ''-'') = False"
    using cr plain by simp
  have rest:
    "(case ds of [] \<Rightarrow> [] | c # r \<Rightarrow> if c = CHR ''-'' \<or> c = CHR ''+'' then r else ds) = ds"
    using cr plain by simp
  show ?thesis
    unfolding parseInt10_def Let_def dw sign rest tw using assms(1) by simp
qed

lemma parseInt10_nat_text: "parseInt10 (nat_text n) = Num (int n)"
  using parseInt10_digits [of "nat_text n"] nat_text_not_Nil [of n]
  by (simp add: nat_text_digits digits_value_nat_text)

lemma number_text_nat:
  "n \<le> 9007199254740992 \<Longrightarrow> number_text beyond (Num (int n)) = nat_text n"
  by (simp add: number_text_def)

lemma nat_text_examples: "nat_text 3600 = ''3600''" "nat_text 60 = ''60''"
  by code_simp+

lemma ttl_text_digits:
  "n \<le> 9007199254740992 \<Longrightarrow> ttl_text beyond (Some (nat_text n)) = nat_text n"
  by (simp add: ttl_text_def nat_text_not_Nil parseInt10_nat_text number_text_nat)

lemma ttl_text_default:
  "ttl_text beyond None = ''3600''" "ttl_text beyond (Some []) = ''3600''"
  using parseInt10_nat_text [of 3600] number_text_nat [of 3600 beyond]
  by (simp_all add: ttl_text_def nat_text_examples)

lemma parseInt10_parts:
  assumes ws: "\<forall>c \<in> set ws. js_space c"
    and sign: "sign = [] \<or> sign = ''-'' \<or> sign = ''+''"
    and ds: "ds \<noteq> []" "\<forall>c \<in> set ds. is_digit c"
    and rest: "rest = [] \<or> \<not> is_digit (hd rest)"
  shows "parseInt10 (ws @ sign @ ds @ rest) =
    Num (if sign = ''-'' then - int (digits_value ds) else int (digits_value ds))"
proof -
  from ds(1) obtain d ds' where d: "ds = d # ds'"
    by (cases ds) auto
  with ds(2) have "is_digit d"
    by simp
  then have plain: "\<not> js_space d" "d \<noteq> CHR ''-''" "d \<noteq> CHR ''+''"
    using is_digit_plain by auto
  have symbols: "\<not> js_space CHR ''-''" "\<not> js_space CHR ''+''"
    by (simp_all add: js_space_def)
  from rest have "takeWhile is_digit rest = []"
    by (cases rest) auto
  with ds(2) have tw: "takeWhile is_digit (ds @ rest) = ds"
    by (simp add: takeWhile_append2)
  from ws have "dropWhile js_space (ws @ sign @ ds @ rest) = dropWhile js_space (sign @ ds @ rest)"
    by (simp add: dropWhile_append2)
  also from sign plain symbols d have "\<dots> = sign @ ds @ rest"
    by auto
  finally have dw: "dropWhile js_space (ws @ sign @ ds @ rest) = sign @ ds @ rest" .
  from sign consider "sign = []" | "sign = ''-''" | "sign = ''+''"
    by blast
  then show ?thesis
  proof cases
    case 1
    have "takeWhile is_digit (d # ds' @ rest) = ds"
      using tw d by simp
    with 1 d plain ds(1) show ?thesis
      unfolding parseInt10_def Let_def dw by (simp del: takeWhile.simps)
  next
    case 2
    with tw ds(1) show ?thesis
      unfolding parseInt10_def Let_def dw by simp
  next
    case 3
    with tw ds(1) show ?thesis
      unfolding parseInt10_def Let_def dw by simp
  qed
qed

lemma ttl_text_parts:
  assumes "\<forall>c \<in> set ws. js_space c"
    and "sign = [] \<or> sign = ''-'' \<or> sign = ''+''"
    and "ds \<noteq> []" "\<forall>c \<in> set ds. is_digit c"
    and "rest = [] \<or> \<not> is_digit (hd rest)"
    and "digits_value ds \<le> 9007199254740992"
  shows "ttl_text beyond (Some (ws @ sign @ ds @ rest)) =
    (if sign = ''-'' \<and> digits_value ds \<noteq> 0 then CHR ''-'' # nat_text (digits_value ds)
     else nat_text (digits_value ds))"
  using assms(3,6) parseInt10_parts [OF assms(1-5)]
  by (simp add: ttl_text_def number_text_def)

lemma ttl_text_unparsable: "ttl_text beyond (Some ''abc'') = ''NaN''"
  by (simp add: ttl_text_def parseInt10_def number_text_def is_digit_def js_space_def)

lemma headers_fresh_response:
  "headers (fresh_response beyond ttl_var up) ''cache-control'' =
     Some (cache_control (ttl_text beyond ttl_var))"
  "headers (fresh_response beyond ttl_var up) ''content-type'' =
     Some ''application/json; charset=utf-8''"
  by (simp_all add: fresh_response_def Let_def new_Response_def set_header_def lower_names)

section \<open>The write to the cache\<close>

lemma fetch_put_iff_ok:
  "(\<exists>key res. Cache_put key res \<in> set (snd (fetch p e req))) \<longleftrightarrow>
   (http_method req = ''GET'' \<and> cache_match p (upstream_of e req) = None \<and>
    (\<exists>up. upstream_fetch p (upstream_of e req) = Resolved up \<and> ok up))"
  by (auto simp: fetch_def Let_def cacheKeyFromURL_def
      split: option.splits fetch_outcome.splits if_splits)

lemma fetch_not_ok:
  "http_method req = ''GET'' \<Longrightarrow> cache_match p (upstream_of e req) = None \<Longrightarrow>
   upstream_fetch p (upstream_of e req) = Resolved up \<Longrightarrow> \<not> ok up \<Longrightarrow>
   status (fst (fetch p e req)) = status up \<and>
   cache_after (cache_match p) (snd (fetch p e req)) = cache_match p"
  by (simp add: fetch_resolved status_withCORS fresh_response_def Let_def new_Response_def)

lemma fetch_part_001_always_puts:
  "http_method req = ''GET'' \<Longrightarrow>
   cache_match p \<lparr>upstream_base = UPSTREAM e, upstream_search = sp\<rparr> = None \<Longrightarrow>
   upstream_fetch p \<lparr>upstream_base = UPSTREAM e, upstream_search = sp\<rparr> = Resolved up \<Longrightarrow>
   sp = set_if_absent (set_if_absent (set_if_absent (set_if_absent (searchParams req)
          ''f'' ''geojson'') ''returnGeometry'' ''true'') ''resultRecordCount'' ''200'')
          ''outFields'' ''*'' \<Longrightarrow>
   \<exists>res. Cache_put \<lparr>upstream_base = UPSTREAM e, upstream_search = sp\<rparr> res
      \<in> set (snd (fetch_part_001 p e req)) \<and> status res = status up"
  by (simp add: fetch_part_001_def Let_def cacheKeyFromURL_def fresh_response_def
      new_Response_def)

section \<open>The claims\<close>

text \<open>
  C9: \<^verbatim>\<open>applyDefaults\<close> is idempotent: for every list of query parameters and either
  dataset kind, a second application changes nothing.
\<close>

theorem applyDefaults_idempotent:
  "applyDefaults (applyDefaults sp k) k = applyDefaults sp k"
  by (cases k) (simp_all add: applyDefaults_def has_set_if_absent set_if_absent_present)

theorem applyDefaults_idempotent_witness:
  "applyDefaults
     [(''where'', ''STATE=5''), (''f'', ''geojson''), (''returnGeometry'', ''true''),
      (''outFields'', ''*''), (''resultRecordCount'', ''1000'')] Water =
   [(''where'', ''STATE=5''), (''f'', ''geojson''), (''returnGeometry'', ''true''),
    (''outFields'', ''*''), (''resultRecordCount'', ''1000'')] \<and>
   applyDefaults [(''where'', ''STATE=5'')] Water =
   [(''where'', ''STATE=5''), (''f'', ''geojson''), (''returnGeometry'', ''true''),
    (''outFields'', ''*''), (''resultRecordCount'', ''1000'')]"
proof -
  have once: "applyDefaults [(''where'', ''STATE=5'')] Water =
      [(''where'', ''STATE=5''), (''f'', ''geojson''), (''returnGeometry'', ''true''),
       (''outFields'', ''*''), (''resultRecordCount'', ''1000'')]"
    by (simp add: evals)
  from applyDefaults_idempotent [of "[(''where'', ''STATE=5'')]" Water] once
  show ?thesis by simp
qed

text \<open>
  C3: a parameter that the inbound query gives reaches the upstream with the values
  of the client, all of them and in their order; no default is put beside them. This
  holds for every parameter name, the five with a default among them, and the inbound
  parameters are the beginning of the forwarded ones.
\<close>

theorem client_values_win:
  assumes "Upstream_fetch u \<in> set (snd (fetch p e req))"
    and "has (searchParams req) name"
  shows "getAll (upstream_search u) name = getAll (searchParams req) name \<and>
    getAll (applyDefaults (searchParams req) k) name = getAll (searchParams req) name \<and>
    prefix (searchParams req) (upstream_search u)"
proof -
  from assms(1) have "u = upstream_of e req"
    by (rule fetch_upstream_events)
  then have "upstream_search u = applyDefaults (searchParams req) (route (pathname req))"
    by (simp add: upstream_search_upstream_of)
  with assms(2) show ?thesis
    by (simp add: getAll_applyDefaults_present applyDefaults_prefix)
qed

theorem client_values_win_witness:
  "getAll
     [(''f'', ''pjson''), (''where'', ''STATE=5''), (''f'', ''json''),
      (''returnGeometry'', ''true''), (''outFields'', ''*''),
      (''resultRecordCount'', ''1000'')] ''f'' = [''pjson'', ''json''] \<and>
   getAll (applyDefaults [(''f'', ''pjson''), (''where'', ''STATE=5''), (''f'', ''json'')] Flood)
     ''f'' = [''pjson'', ''json'']"
proof -
  let ?p = "\<lparr>cache_match = (\<lambda>u. None), upstream_fetch = (\<lambda>u. Rejected),
    number_beyond_safe = (\<lambda>n. [])\<rparr>"
  let ?e = "\<lparr>CORS_ORIGIN = ''*'', CACHE_TTL = None,
    UPSTREAM_FLOOD = ''https://flood.example/query'',
    UPSTREAM_WATER = ''https://water.example/query''\<rparr>"
  let ?req = "\<lparr>http_method = ''GET'', pathname = ''/water'',
    searchParams = [(''f'', ''pjson''), (''where'', ''STATE=5''), (''f'', ''json'')],
    origin_header = None\<rparr>"
  let ?u = "\<lparr>upstream_base = ''https://water.example/query'',
    upstream_search = [(''f'', ''pjson''), (''where'', ''STATE=5''), (''f'', ''json''),
      (''returnGeometry'', ''true''), (''outFields'', ''*''),
      (''resultRecordCount'', ''1000'')]\<rparr>"
  have sent: "Upstream_fetch ?u \<in> set (snd (fetch ?p ?e ?req))"
    by (simp add: evals)
  have given: "has (searchParams ?req) ''f''"
    by (simp add: has_def)
  from client_values_win [OF sent given, of Flood] show ?thesis
    by (simp add: getAll_def)
qed

text \<open>
  C10: \<^verbatim>\<open>withCORS\<close> keeps the status and the body of the response it wraps, and every
  header other than \<^verbatim>\<open>Access-Control-Allow-Origin\<close>, \<^verbatim>\<open>Access-Control-Allow-Methods\<close>,
  \<^verbatim>\<open>Access-Control-Allow-Headers\<close> and \<^verbatim>\<open>Vary\<close>.
\<close>

theorem withCORS_frame:
  "status (withCORS res originHeader reqOrigin) = status res \<and>
   body (withCORS res originHeader reqOrigin) = body res \<and>
   (\<forall>name. name \<notin> {''access-control-allow-origin'', ''access-control-allow-methods'',
                    ''access-control-allow-headers'', ''vary''} \<longrightarrow>
      headers (withCORS res originHeader reqOrigin) name = headers res name)"
  by (simp add: status_withCORS body_withCORS headers_withCORS)

theorem withCORS_frame_witness:
  "headers
     (withCORS
        \<lparr>status = 200,
         headers = no_headers(''content-type'' \<mapsto> ''application/json'', ''etag'' \<mapsto> ''abc''),
         body = Some ''{}''\<rparr>
        ''https://a.example'' (Some ''https://a.example'')) ''etag'' = Some ''abc'' \<and>
   status
     (withCORS
        \<lparr>status = 200,
         headers = no_headers(''content-type'' \<mapsto> ''application/json'', ''etag'' \<mapsto> ''abc''),
         body = Some ''{}''\<rparr>
        ''https://a.example'' (Some ''https://a.example'')) = 200"
  using withCORS_frame
    [of "\<lparr>status = 200,
          headers = no_headers(''content-type'' \<mapsto> ''application/json'', ''etag'' \<mapsto> ''abc''),
          body = Some ''{}''\<rparr>" "''https://a.example''" "Some ''https://a.example''"]
  by simp

text \<open>
  C8: a \<^verbatim>\<open>GET\<close> request is routed by its path with the trailing slashes removed: the
  path \<^verbatim>\<open>/water\<close>, followed by any number of slashes, selects the water kind and the
  base \<^verbatim>\<open>UPSTREAM_WATER\<close>; every other path, \<^verbatim>\<open>/flood\<close> and \<^verbatim>\<open>/\<close> among them, selects
  the flood kind and the base \<^verbatim>\<open>UPSTREAM_FLOOD\<close>. The routed URL is the one the handler
  looks up in the cache and fetches.
\<close>

theorem route_selection:
  assumes "http_method req = ''GET''"
  shows "(\<exists>rest. snd (fetch p e req) = Cache_match (upstream_of e req) # rest) \<and>
    (\<forall>u. Upstream_fetch u \<in> set (snd (fetch p e req)) \<longrightarrow> u = upstream_of e req) \<and>
    ((\<exists>n. pathname req = ''/water'' @ replicate n CHR ''/'') \<longrightarrow>
       upstream_of e req =
         \<lparr>upstream_base = UPSTREAM_WATER e,
          upstream_search = applyDefaults (searchParams req) Water\<rparr>) \<and>
    ((\<forall>n. pathname req \<noteq> ''/water'' @ replicate n CHR ''/'') \<longrightarrow>
       upstream_of e req =
         \<lparr>upstream_base = UPSTREAM_FLOOD e,
          upstream_search = applyDefaults (searchParams req) Flood\<rparr>)"
proof -
  have water: "upstream_of e req =
      \<lparr>upstream_base = UPSTREAM_WATER e,
       upstream_search = applyDefaults (searchParams req) Water\<rparr>"
    if "\<exists>n. pathname req = ''/water'' @ replicate n CHR ''/''"
    using that route_Water [of "pathname req"] by (simp add: upstream_of_def Let_def)
  have flood: "upstream_of e req =
      \<lparr>upstream_base = UPSTREAM_FLOOD e,
       upstream_search = applyDefaults (searchParams req) Flood\<rparr>"
    if "\<forall>n. pathname req \<noteq> ''/water'' @ replicate n CHR ''/''"
    using that route_Flood [of "pathname req"] by (simp add: upstream_of_def Let_def)
  from water flood fetch_GET_events [OF assms, of p e] fetch_upstream_events [of _ p e req]
  show ?thesis by blast
qed

theorem route_selection_witness:
  "upstream_of
     \<lparr>CORS_ORIGIN = ''*'', CACHE_TTL = None,
      UPSTREAM_FLOOD = ''https://flood.example/query'',
      UPSTREAM_WATER = ''https://water.example/query''\<rparr>
     \<lparr>http_method = ''GET'', pathname = ''/water//'', searchParams = [],
      origin_header = None\<rparr> =
   \<lparr>upstream_base = ''https://water.example/query'',
    upstream_search = applyDefaults [] Water\<rparr> \<and>
   upstream_of
     \<lparr>CORS_ORIGIN = ''*'', CACHE_TTL = None,
      UPSTREAM_FLOOD = ''https://flood.example/query'',
      UPSTREAM_WATER = ''https://water.example/query''\<rparr>
     \<lparr>http_method = ''GET'', pathname = ''/'', searchParams = [],
      origin_header = None\<rparr> =
   \<lparr>upstream_base = ''https://flood.example/query'',
    upstream_search = applyDefaults [] Flood\<rparr> \<and>
   upstream_of
     \<lparr>CORS_ORIGIN = ''*'', CACHE_TTL = None,
      UPSTREAM_FLOOD = ''https://flood.example/query'',
      UPSTREAM_WATER = ''https://water.example/query''\<rparr>
     \<lparr>http_method = ''GET'', pathname = ''/flood'', searchParams = [],
      origin_header = None\<rparr> =
   \<lparr>upstream_base = ''https://flood.example/query'',
    upstream_search = applyDefaults [] Flood\<rparr> \<and>
   upstream_of
     \<lparr>CORS_ORIGIN = ''*'', CACHE_TTL = None,
      UPSTREAM_FLOOD = ''https://flood.example/query'',
      UPSTREAM_WATER = ''https://water.example/query''\<rparr>
     \<lparr>http_method = ''GET'', pathname = ''/Water'', searchParams = [],
      origin_header = None\<rparr> =
   \<lparr>upstream_base = ''https://flood.example/query'',
    upstream_search = applyDefaults [] Flood\<rparr>"
proof -
  let ?p = "\<lparr>cache_match = (\<lambda>u. None), upstream_fetch = (\<lambda>u. Rejected),
    number_beyond_safe = (\<lambda>n. [])\<rparr>"
  let ?e = "\<lparr>CORS_ORIGIN = ''*'', CACHE_TTL = None,
    UPSTREAM_FLOOD = ''https://flood.example/query'',
    UPSTREAM_WATER = ''https://water.example/query''\<rparr>"
  let ?r = "\<lambda>path. \<lparr>http_method = ''GET'', pathname = path, searchParams = [],
    origin_header = None\<rparr>"
  have slashes: "''/water//'' = ''/water'' @ replicate 2 CHR ''/''"
    by (simp add: numeral_2_eq_2)
  have other: "\<forall>n. ''/'' \<noteq> ''/water'' @ replicate n CHR ''/''"
    "\<forall>n. ''/flood'' \<noteq> ''/water'' @ replicate n CHR ''/''"
    "\<forall>n. ''/Water'' \<noteq> ''/water'' @ replicate n CHR ''/''"
    by simp_all
  from route_selection [of "?r ''/water//''" ?p ?e] route_selection [of "?r ''/''" ?p ?e]
    route_selection [of "?r ''/flood''" ?p ?e] route_selection [of "?r ''/Water''" ?p ?e]
    slashes other
  show ?thesis
    by (simp del: replicate.simps replicate_Suc)
qed




text \<open>
  C6, as amended: when a \<^verbatim>\<open>GET\<close> request misses the cache and the upstream fetch is
  rejected (the timer aborts it before it resolves, or a network error rejects it), the
  answer has status 504, the body \<^verbatim>\<open>{"error":"upstream_timeout_or_network"}\<close> with its
  JSON content type, and the CORS headers: the three fixed ones, and
  \<^verbatim>\<open>Access-Control-Allow-Origin\<close> with the origin of the request when that is present,
  not empty and allowed by the list, with \<^verbatim>\<open>*\<close> when the origin is absent or empty and
  the list holds \<^verbatim>\<open>*\<close>, and absent otherwise. The handler has looked up the cache once
  and fetched once, nothing is written to the cache, and the read of a body plays no part.
\<close>

theorem upstream_failure:
  assumes "http_method req = ''GET''"
    and "cache_match p (upstream_of e req) = None"
    and "upstream_fetch p (upstream_of e req) = Rejected"
  shows \<open>status (fst (fetch p e req)) = 504 \<and>
    body (fst (fetch p e req)) = Some ''{"error":"upstream_timeout_or_network"}'' \<and>
    headers (fst (fetch p e req)) ''content-type'' = Some ''application/json'' \<and>
    fst (fetch p e req) = withCORS timeout_response (CORS_ORIGIN e) (reqOrigin_of req) \<and>
    (\<forall>origin. origin_header req = Some origin \<and> origin \<noteq> [] \<and>
       (origin \<in> set (map trim (split CHR '','' (CORS_ORIGIN e))) \<or>
        ''*'' \<in> set (map trim (split CHR '','' (CORS_ORIGIN e)))) \<longrightarrow>
       headers (fst (fetch p e req)) ''access-control-allow-origin'' = Some origin) \<and>
    ((origin_header req = None \<or> origin_header req = Some []) \<and>
       ''*'' \<in> set (map trim (split CHR '','' (CORS_ORIGIN e))) \<longrightarrow>
       headers (fst (fetch p e req)) ''access-control-allow-origin'' = Some ''*'') \<and>
    (''*'' \<notin> set (map trim (split CHR '','' (CORS_ORIGIN e))) \<and>
       (\<forall>origin. origin_header req = Some origin \<longrightarrow>
          origin = [] \<or> origin \<notin> set (map trim (split CHR '','' (CORS_ORIGIN e)))) \<longrightarrow>
       headers (fst (fetch p e req)) ''access-control-allow-origin'' = None) \<and>
    headers (fst (fetch p e req)) ''access-control-allow-methods'' = Some ''GET,HEAD,OPTIONS'' \<and>
    headers (fst (fetch p e req)) ''access-control-allow-headers'' = Some ''Content-Type'' \<and>
    headers (fst (fetch p e req)) ''vary'' = Some ''Origin'' \<and>
    snd (fetch p e req) = [Cache_match (upstream_of e req), Upstream_fetch (upstream_of e req)] \<and>
    cache_after (cache_match p) (snd (fetch p e req)) = cache_match p \<and>
    (\<forall>body_rejected. fetch_with_body_read p body_rejected e req =
       (Inr (fst (fetch p e req)), snd (fetch p e req)))\<close>
proof -
  have timeout: \<open>status timeout_response = 504\<close>
    \<open>body timeout_response = Some ''{"error":"upstream_timeout_or_network"}''\<close>
    \<open>headers timeout_response ''content-type'' = Some ''application/json''\<close>
    \<open>headers timeout_response ''access-control-allow-origin'' = None\<close>
    by (simp_all add: timeout_response_def new_Response_def set_header_def lower_names
        no_headers_def)
  have answer: "fst (fetch p e req) = withCORS timeout_response (CORS_ORIGIN e) (reqOrigin_of req)"
    and events: "snd (fetch p e req) =
      [Cache_match (upstream_of e req), Upstream_fetch (upstream_of e req)]"
    by (simp_all add: fetch_rejected [OF assms])
  have allow: "headers (fst (fetch p e req)) ''access-control-allow-origin'' =
      (case origin_header req of
         None \<Rightarrow> if ''*'' \<in> set (map trim (split CHR '','' (CORS_ORIGIN e))) then Some ''*'' else None
       | Some origin \<Rightarrow>
           if origin \<noteq> [] \<and>
              (''*'' \<in> set (map trim (split CHR '','' (CORS_ORIGIN e))) \<or>
               origin \<in> set (map trim (split CHR '','' (CORS_ORIGIN e))))
           then Some origin
           else if ''*'' \<in> set (map trim (split CHR '','' (CORS_ORIGIN e))) then Some ''*''
           else None)"
    unfolding answer
    by (simp add: headers_withCORS timeout reqOrigin_of_def split: option.splits)
  have reading: "fetch_with_body_read p body_rejected e req =
      (Inr (fst (fetch p e req)), snd (fetch p e req))" for body_rejected
    using assms by (simp add: fetch_with_body_read_def cacheKeyFromURL_def Let_def)
  have rest: \<open>status (fst (fetch p e req)) = 504 \<and>
      body (fst (fetch p e req)) = Some ''{"error":"upstream_timeout_or_network"}'' \<and>
      headers (fst (fetch p e req)) ''content-type'' = Some ''application/json''\<close>
    unfolding answer by (simp add: status_withCORS body_withCORS headers_withCORS timeout)
  have unchanged: "cache_after (cache_match p) (snd (fetch p e req)) = cache_match p"
    unfolding events by simp
  from allow have listed: "headers (fst (fetch p e req)) ''access-control-allow-origin'' = Some origin"
    if "origin_header req = Some origin \<and> origin \<noteq> [] \<and>
       (origin \<in> set (map trim (split CHR '','' (CORS_ORIGIN e))) \<or>
        ''*'' \<in> set (map trim (split CHR '','' (CORS_ORIGIN e))))" for origin
    using that by auto
  from allow have star: "headers (fst (fetch p e req)) ''access-control-allow-origin'' = Some ''*''"
    if "(origin_header req = None \<or> origin_header req = Some []) \<and>
       ''*'' \<in> set (map trim (split CHR '','' (CORS_ORIGIN e)))"
    using that by auto
  from allow have omitted: "headers (fst (fetch p e req)) ''access-control-allow-origin'' = None"
    if "''*'' \<notin> set (map trim (split CHR '','' (CORS_ORIGIN e))) \<and>
       (\<forall>origin. origin_header req = Some origin \<longrightarrow>
          origin = [] \<or> origin \<notin> set (map trim (split CHR '','' (CORS_ORIGIN e))))"
    using that by (auto split: option.splits)
  from rest answer listed star omitted fetch_cors_headers [of p e req] events unchanged reading
  show ?thesis by blast
qed

theorem upstream_failure_witness:
  \<open>status (fst (fetch
     \<lparr>cache_match = (\<lambda>u. None), upstream_fetch = (\<lambda>u. Rejected),
      number_beyond_safe = (\<lambda>n. [])\<rparr>
     \<lparr>CORS_ORIGIN = ''https://a.example, https://b.example'', CACHE_TTL = None,
      UPSTREAM_FLOOD = ''https://flood.example/query'',
      UPSTREAM_WATER = ''https://water.example/query''\<rparr>
     \<lparr>http_method = ''GET'', pathname = ''/flood'', searchParams = [],
      origin_header = Some ''https://a.example''\<rparr>)) = 504 \<and>
   body (fst (fetch
     \<lparr>cache_match = (\<lambda>u. None), upstream_fetch = (\<lambda>u. Rejected),
      number_beyond_safe = (\<lambda>n. [])\<rparr>
     \<lparr>CORS_ORIGIN = ''https://a.example, https://b.example'', CACHE_TTL = None,
      UPSTREAM_FLOOD = ''https://flood.example/query'',
      UPSTREAM_WATER = ''https://water.example/query''\<rparr>
     \<lparr>http_method = ''GET'', pathname = ''/flood'', searchParams = [],
      origin_header = Some ''https://a.example''\<rparr>)) =
     Some ''{"error":"upstream_timeout_or_network"}'' \<and>
   headers (fst (fetch
     \<lparr>cache_match = (\<lambda>u. None), upstream_fetch = (\<lambda>u. Rejected),
      number_beyond_safe = (\<lambda>n. [])\<rparr>
     \<lparr>CORS_ORIGIN = ''https://a.example, https://b.example'', CACHE_TTL = None,
      UPSTREAM_FLOOD = ''https://flood.example/query'',
      UPSTREAM_WATER = ''https://water.example/query''\<rparr>
     \<lparr>http_method = ''GET'', pathname = ''/flood'', searchParams = [],
      origin_header = Some ''https://a.example''\<rparr>)) ''access-control-allow-origin'' =
     Some ''https://a.example'' \<and>
   headers (fst (fetch
     \<lparr>cache_match = (\<lambda>u. None), upstream_fetch = (\<lambda>u. Rejected),
      number_beyond_safe = (\<lambda>n. [])\<rparr>
     \<lparr>CORS_ORIGIN = ''https://a.example, https://b.example'', CACHE_TTL = None,
      UPSTREAM_FLOOD = ''https://flood.example/query'',
      UPSTREAM_WATER = ''https://water.example/query''\<rparr>
     \<lparr>http_method = ''GET'', pathname = ''/flood'', searchParams = [],
      origin_header = Some ''https://c.example''\<rparr>)) ''access-control-allow-origin'' = None \<and>
   headers (fst (fetch
     \<lparr>cache_match = (\<lambda>u. None), upstream_fetch = (\<lambda>u. Rejected),
      number_beyond_safe = (\<lambda>n. [])\<rparr>
     \<lparr>CORS_ORIGIN = ''*'', CACHE_TTL = None,
      UPSTREAM_FLOOD = ''https://flood.example/query'',
      UPSTREAM_WATER = ''https://water.example/query''\<rparr>
     \<lparr>http_method = ''GET'', pathname = ''/flood'', searchParams = [],
      origin_header = None\<rparr>)) ''access-control-allow-origin'' = Some ''*''\<close>
proof -
  let ?p = "\<lparr>cache_match = (\<lambda>u. None), upstream_fetch = (\<lambda>u. Rejected),
    number_beyond_safe = (\<lambda>n. [])\<rparr>"
  let ?e = "\<lambda>origins. \<lparr>CORS_ORIGIN = origins, CACHE_TTL = None,
    UPSTREAM_FLOOD = ''https://flood.example/query'',
    UPSTREAM_WATER = ''https://water.example/query''\<rparr>"
  let ?req = "\<lambda>origin. \<lparr>http_method = ''GET'', pathname = ''/flood'', searchParams = [],
    origin_header = origin\<rparr>"
  let ?two = "''https://a.example, https://b.example''"
  have get: "http_method (?req origin) = ''GET''" for origin by simp
  have miss: "cache_match ?p (upstream_of (?e origins) (?req origin)) = None"
    for origins origin by simp
  have failed: "upstream_fetch ?p (upstream_of (?e origins) (?req origin)) = Rejected"
    for origins origin by simp
  note a = upstream_failure [OF get miss failed, of ?two "Some ''https://a.example''"]
  note c = upstream_failure [OF get miss failed, of ?two "Some ''https://c.example''"]
  note n = upstream_failure [OF get miss failed, of "''*''" None]
  note st = a [THEN conjunct1]
  note bd = a [THEN conjunct2, THEN conjunct1]
  have listed: "headers (fst (fetch ?p (?e ?two) (?req (Some ''https://a.example''))))
      ''access-control-allow-origin'' = Some ''https://a.example''"
    by (rule a [THEN conjunct2, THEN conjunct2, THEN conjunct2, THEN conjunct2,
          THEN conjunct1, rule_format])
      (simp add: trim_def js_space_def)
  have unlisted: "headers (fst (fetch ?p (?e ?two) (?req (Some ''https://c.example''))))
      ''access-control-allow-origin'' = None"
    by (rule c [THEN conjunct2, THEN conjunct2, THEN conjunct2, THEN conjunct2,
          THEN conjunct2, THEN conjunct2, THEN conjunct1, rule_format])
      (simp add: trim_def js_space_def)
  have any: "headers (fst (fetch ?p (?e ''*'') (?req None))) ''access-control-allow-origin'' =
      Some ''*''"
    by (rule n [THEN conjunct2, THEN conjunct2, THEN conjunct2, THEN conjunct2,
          THEN conjunct2, THEN conjunct1, rule_format])
      (simp add: trim_def js_space_def)
  from st bd listed unlisted any show ?thesis by blast
qed

text \<open>
  C6 as stated fails for a network error after the fetch has resolved: when the read of
  the body is rejected, the handler gives no 504 response, it ends with the rejection.
\<close>

theorem body_read_failure_not_504:
  "fetch_with_body_read
     \<lparr>cache_match = (\<lambda>u. None),
      upstream_fetch = (\<lambda>u. Resolved \<lparr>status = 200, headers = no_headers, body = Some ''{''\<rparr>),
      number_beyond_safe = (\<lambda>n. [])\<rparr>
     (\<lambda>u. True)
     \<lparr>CORS_ORIGIN = ''*'', CACHE_TTL = None,
      UPSTREAM_FLOOD = ''https://flood.example/query'',
      UPSTREAM_WATER = ''https://water.example/query''\<rparr>
     \<lparr>http_method = ''GET'', pathname = ''/flood'', searchParams = [],
      origin_header = None\<rparr> =
   (Inl Body_read_rejected,
    [Cache_match
       \<lparr>upstream_base = ''https://flood.example/query'',
        upstream_search = [(''f'', ''geojson''), (''returnGeometry'', ''true''),
          (''outFields'', ''*''), (''where'', ''1=1''), (''resultRecordCount'', ''500'')]\<rparr>,
     Upstream_fetch
       \<lparr>upstream_base = ''https://flood.example/query'',
        upstream_search = [(''f'', ''geojson''), (''returnGeometry'', ''true''),
          (''outFields'', ''*''), (''where'', ''1=1''), (''resultRecordCount'', ''500'')]\<rparr>])"
  by (simp add: fetch_with_body_read_def upstream_of_def cacheKeyFromURL_def route_def
      trim_slashes_def applyDefaults_def set_if_absent_def set_param_def has_def Let_def)

text \<open>
  C4, as amended: on a cache-miss fetch, the \<^verbatim>\<open>Cache-Control\<close> header of the returned
  response, and of the cached one, is
  \<^verbatim>\<open>public, max-age=<ttl>, s-maxage=<ttl>, stale-while-revalidate=60\<close>, where \<^verbatim>\<open><ttl>\<close> is
  \<^verbatim>\<open>CACHE_TTL\<close> parsed as an integer: white space at its start is skipped, one sign is
  read, then the longest run of decimal digits, and what follows is ignored; the integer
  is printed in decimal, exactly up to \<open>2 ^ 53\<close>. \<^verbatim>\<open><ttl>\<close> is 3600 when \<^verbatim>\<open>CACHE_TTL\<close> is
  unset or empty. A response is cached exactly when the upstream status is in the 2xx
  range.
\<close>

theorem cache_control_of_miss:
  assumes "http_method req = ''GET''"
    and "cache_match p (upstream_of e req) = None"
    and "upstream_fetch p (upstream_of e req) = Resolved up"
  shows "headers (fst (fetch p e req)) ''cache-control'' =
      Some (''public, max-age='' @ ttl_text (number_beyond_safe p) (CACHE_TTL e) @
            '', s-maxage='' @ ttl_text (number_beyond_safe p) (CACHE_TTL e) @
            '', stale-while-revalidate=60'') \<and>
    (\<forall>key res. Cache_put key res \<in> set (snd (fetch p e req)) \<longrightarrow>
       headers res ''cache-control'' = headers (fst (fetch p e req)) ''cache-control'') \<and>
    (ok up \<longrightarrow> (\<exists>res. Cache_put (upstream_of e req) res \<in> set (snd (fetch p e req)))) \<and>
    (CACHE_TTL e = None \<or> CACHE_TTL e = Some [] \<longrightarrow>
       ttl_text (number_beyond_safe p) (CACHE_TTL e) = ''3600'') \<and>
    (\<forall>n. n \<le> 9007199254740992 \<and> CACHE_TTL e = Some (nat_text n) \<longrightarrow>
       ttl_text (number_beyond_safe p) (CACHE_TTL e) = nat_text n) \<and>
    (\<forall>ws sign ds rest.
       CACHE_TTL e = Some (ws @ sign @ ds @ rest) \<and>
       (\<forall>c \<in> set ws. js_space c) \<and>
       (sign = [] \<or> sign = ''-'' \<or> sign = ''+'') \<and>
       ds \<noteq> [] \<and> (\<forall>c \<in> set ds. is_digit c) \<and>
       (rest = [] \<or> \<not> is_digit (hd rest)) \<and>
       digits_value ds \<le> 9007199254740992 \<longrightarrow>
       ttl_text (number_beyond_safe p) (CACHE_TTL e) =
         (if sign = ''-'' \<and> digits_value ds \<noteq> 0
          then CHR ''-'' # nat_text (digits_value ds)
          else nat_text (digits_value ds)))"
proof -
  let ?fresh = "fresh_response (number_beyond_safe p) (CACHE_TTL e) up"
  have returned: "headers (fst (fetch p e req)) ''cache-control'' =
      headers ?fresh ''cache-control''"
    by (simp add: fetch_resolved [OF assms] headers_withCORS)
  have cached: "headers res ''cache-control'' = headers ?fresh ''cache-control''"
    if "Cache_put key res \<in> set (snd (fetch p e req))" for key res
    using that by (simp add: fetch_resolved [OF assms] split: if_splits)
  have written: "\<exists>res. Cache_put (upstream_of e req) res \<in> set (snd (fetch p e req))"
    if "ok up"
    using that by (simp add: fetch_resolved [OF assms])
  have unset: "ttl_text (number_beyond_safe p) (CACHE_TTL e) = ''3600''"
    if "CACHE_TTL e = None \<or> CACHE_TTL e = Some []"
    using that ttl_text_default [of "number_beyond_safe p"] by auto
  have digits: "ttl_text (number_beyond_safe p) (CACHE_TTL e) = nat_text n"
    if "n \<le> 9007199254740992 \<and> CACHE_TTL e = Some (nat_text n)" for n
    using that ttl_text_digits [of n "number_beyond_safe p"] by simp
  have parts: "ttl_text (number_beyond_safe p) (CACHE_TTL e) =
      (if sign = ''-'' \<and> digits_value ds \<noteq> 0
       then CHR ''-'' # nat_text (digits_value ds)
       else nat_text (digits_value ds))"
    if "CACHE_TTL e = Some (ws @ sign @ ds @ rest) \<and>
       (\<forall>c \<in> set ws. js_space c) \<and>
       (sign = [] \<or> sign = ''-'' \<or> sign = ''+'') \<and>
       ds \<noteq> [] \<and> (\<forall>c \<in> set ds. is_digit c) \<and>
       (rest = [] \<or> \<not> is_digit (hd rest)) \<and>
       digits_value ds \<le> 9007199254740992" for ws sign ds rest
  proof -
    from that have ttl: "CACHE_TTL e = Some (ws @ sign @ ds @ rest)"
      and a: "\<forall>c \<in> set ws. js_space c" "sign = [] \<or> sign = ''-'' \<or> sign = ''+''"
        "ds \<noteq> []" "\<forall>c \<in> set ds. is_digit c" "rest = [] \<or> \<not> is_digit (hd rest)"
        "digits_value ds \<le> 9007199254740992"
      by blast+
    show ?thesis
      unfolding ttl by (rule ttl_text_parts [OF a])
  qed
  have header: "headers (fst (fetch p e req)) ''cache-control'' =
      Some (''public, max-age='' @ ttl_text (number_beyond_safe p) (CACHE_TTL e) @
            '', s-maxage='' @ ttl_text (number_beyond_safe p) (CACHE_TTL e) @
            '', stale-while-revalidate=60'')"
    unfolding returned by (simp add: headers_fresh_response cache_control_def)
  have same: "\<forall>key res. Cache_put key res \<in> set (snd (fetch p e req)) \<longrightarrow>
      headers res ''cache-control'' = headers (fst (fetch p e req)) ''cache-control''"
    using returned cached by simp
  from header same written unset digits parts show ?thesis
    by blast
qed

theorem cache_control_of_miss_witness:
  "headers (fst (fetch
     \<lparr>cache_match = (\<lambda>u. None),
      upstream_fetch = (\<lambda>u. Resolved \<lparr>status = 200, headers = no_headers, body = Some ''{}''\<rparr>),
      number_beyond_safe = (\<lambda>n. [])\<rparr>
     \<lparr>CORS_ORIGIN = ''*'', CACHE_TTL = Some ''60'',
      UPSTREAM_FLOOD = ''https://flood.example/query'',
      UPSTREAM_WATER = ''https://water.example/query''\<rparr>
     \<lparr>http_method = ''GET'', pathname = ''/flood'', searchParams = [],
      origin_header = None\<rparr>)) ''cache-control'' =
   Some ''public, max-age=60, s-maxage=60, stale-while-revalidate=60'' \<and>
   headers (fst (fetch
     \<lparr>cache_match = (\<lambda>u. None),
      upstream_fetch = (\<lambda>u. Resolved \<lparr>status = 200, headers = no_headers, body = Some ''{}''\<rparr>),
      number_beyond_safe = (\<lambda>n. [])\<rparr>
     \<lparr>CORS_ORIGIN = ''*'', CACHE_TTL = None,
      UPSTREAM_FLOOD = ''https://flood.example/query'',
      UPSTREAM_WATER = ''https://water.example/query''\<rparr>
     \<lparr>http_method = ''GET'', pathname = ''/flood'', searchParams = [],
      origin_header = None\<rparr>)) ''cache-control'' =
   Some ''public, max-age=3600, s-maxage=3600, stale-while-revalidate=60'' \<and>
   headers
     (fresh_response (\<lambda>n. []) (Some ''60'')
        \<lparr>status = 200, headers = no_headers, body = Some ''{}''\<rparr>) ''cache-control'' =
   Some ''public, max-age=60, s-maxage=60, stale-while-revalidate=60'' \<and>
   ttl_text (\<lambda>n. []) (Some '' 42'') = ''42'' \<and>
   ttl_text (\<lambda>n. []) (Some ''-5'') = ''-5'' \<and>
   ttl_text (\<lambda>n. []) (Some ''+7'') = ''7'' \<and>
   ttl_text (\<lambda>n. []) (Some ''00060'') = ''60'' \<and>
   ttl_text (\<lambda>n. []) (Some ''12abc'') = ''12''"
proof -
  let ?up = "\<lparr>status = 200, headers = no_headers, body = Some ''{}''\<rparr>"
  let ?p = "\<lparr>cache_match = (\<lambda>u. None), upstream_fetch = (\<lambda>u. Resolved ?up),
    number_beyond_safe = (\<lambda>n. [])\<rparr>"
  let ?e = "\<lambda>ttl. \<lparr>CORS_ORIGIN = ''*'', CACHE_TTL = ttl,
    UPSTREAM_FLOOD = ''https://flood.example/query'',
    UPSTREAM_WATER = ''https://water.example/query''\<rparr>"
  let ?req = "\<lparr>http_method = ''GET'', pathname = ''/flood'', searchParams = [],
    origin_header = None\<rparr>"
  have get: "http_method ?req = ''GET''" by simp
  have miss: "cache_match ?p (upstream_of (?e ttl) ?req) = None" for ttl by simp
  have resolved: "upstream_fetch ?p (upstream_of (?e ttl) ?req) = Resolved ?up" for ttl
    by simp
  note inst = cache_control_of_miss [OF get miss resolved]
  note parts = inst [THEN conjunct2, THEN conjunct2, THEN conjunct2, THEN conjunct2,
    THEN conjunct2, rule_format]
  have texts: "nat_text 42 = ''42''" "nat_text 5 = ''5''" "nat_text 7 = ''7''"
    "nat_text 12 = ''12''"
    by code_simp+
  have spaced: "ttl_text (\<lambda>n. []) (Some '' 42'') = ''42''"
    using parts [of "Some '' 42''" "'' ''" "[]" "''42''" "[]"]
    by (simp add: js_space_def is_digit_def digits_value_def texts)
  have minus: "ttl_text (\<lambda>n. []) (Some ''-5'') = ''-5''"
    using parts [of "Some ''-5''" "[]" "''-''" "''5''" "[]"]
    by (simp add: js_space_def is_digit_def digits_value_def texts)
  have plus: "ttl_text (\<lambda>n. []) (Some ''+7'') = ''7''"
    using parts [of "Some ''+7''" "[]" "''+''" "''7''" "[]"]
    by (simp add: js_space_def is_digit_def digits_value_def texts)
  have zeros: "ttl_text (\<lambda>n. []) (Some ''00060'') = ''60''"
    using parts [of "Some ''00060''" "[]" "[]" "''00060''" "[]"]
    by (simp add: js_space_def is_digit_def digits_value_def nat_text_examples)
  have tail: "ttl_text (\<lambda>n. []) (Some ''12abc'') = ''12''"
    using parts [of "Some ''12abc''" "[]" "[]" "''12''" "''abc''"]
    by (simp add: js_space_def is_digit_def digits_value_def texts)
  have sixty: "(60::nat) \<le> 9007199254740992 \<and> CACHE_TTL (?e (Some ''60'')) = Some (nat_text 60)"
    by (simp add: nat_text_examples)
  from inst [of "Some ''60''"] sixty
  have t60: "ttl_text (number_beyond_safe ?p) (CACHE_TTL (?e (Some ''60''))) = nat_text 60"
    by blast
  from inst [of None]
  have tdef: "ttl_text (number_beyond_safe ?p) (CACHE_TTL (?e None)) = ''3600''"
    by simp
  have put: "Cache_put (upstream_of (?e (Some ''60'')) ?req)
      (fresh_response (\<lambda>n. []) (Some ''60'') ?up)
      \<in> set (snd (fetch ?p (?e (Some ''60'')) ?req))"
    by (simp add: fetch_resolved [OF get miss resolved] ok_def)
  have h60: "headers (fst (fetch ?p (?e (Some ''60'')) ?req)) ''cache-control'' =
      Some ''public, max-age=60, s-maxage=60, stale-while-revalidate=60''"
    using inst [of "Some ''60''", THEN conjunct1] t60 by (simp add: nat_text_examples)
  have hdef: "headers (fst (fetch ?p (?e None) ?req)) ''cache-control'' =
      Some ''public, max-age=3600, s-maxage=3600, stale-while-revalidate=60''"
    using inst [of None, THEN conjunct1] tdef by simp
  have c60: "headers (fresh_response (\<lambda>n. []) (Some ''60'') ?up) ''cache-control'' =
      Some ''public, max-age=60, s-maxage=60, stale-while-revalidate=60''"
    using inst [of "Some ''60''", THEN conjunct2, THEN conjunct1, rule_format, OF put] h60
    by simp
  from h60 hdef c60 spaced minus plus zeros tail show ?thesis
    by blast
qed

text \<open>
  C4 as stated fails for a \<^verbatim>\<open>CACHE_TTL\<close> that does not start with a number: with
  \<^verbatim>\<open>CACHE_TTL = "abc"\<close> the header is
  \<^verbatim>\<open>public, max-age=NaN, s-maxage=NaN, stale-while-revalidate=60\<close>, not the one of 3600.
\<close>

theorem cache_control_unparsable_ttl:
  "headers (fst (fetch
     \<lparr>cache_match = (\<lambda>u. None),
      upstream_fetch = (\<lambda>u. Resolved \<lparr>status = 200, headers = no_headers, body = Some ''{}''\<rparr>),
      number_beyond_safe = (\<lambda>n. [])\<rparr>
     \<lparr>CORS_ORIGIN = ''*'', CACHE_TTL = Some ''abc'',
      UPSTREAM_FLOOD = ''https://flood.example/query'',
      UPSTREAM_WATER = ''https://water.example/query''\<rparr>
     \<lparr>http_method = ''GET'', pathname = ''/flood'', searchParams = [],
      origin_header = None\<rparr>)) ''cache-control'' =
   Some ''public, max-age=NaN, s-maxage=NaN, stale-while-revalidate=60'' \<and>
   headers (fst (fetch
     \<lparr>cache_match = (\<lambda>u. None),
      upstream_fetch = (\<lambda>u. Resolved \<lparr>status = 200, headers = no_headers, body = Some ''{}''\<rparr>),
      number_beyond_safe = (\<lambda>n. [])\<rparr>
     \<lparr>CORS_ORIGIN = ''*'', CACHE_TTL = Some ''abc'',
      UPSTREAM_FLOOD = ''https://flood.example/query'',
      UPSTREAM_WATER = ''https://water.example/query''\<rparr>
     \<lparr>http_method = ''GET'', pathname = ''/flood'', searchParams = [],
      origin_header = None\<rparr>)) ''cache-control'' \<noteq>
   Some ''public, max-age=3600, s-maxage=3600, stale-while-revalidate=60''"
  by (simp add: evals ttl_text_unparsable)




text \<open>
  C1: a \<^verbatim>\<open>GET\<close> request that misses the cache writes the response to the cache exactly
  when the upstream status is in the 2xx range. The handler of \<^verbatim>\<open>src/index.ts\<close> does so
  (\<open>fetch_put_iff_ok\<close>, \<open>fetch_not_ok\<close>); the handler of \<^verbatim>\<open>src/unnamed/part_001\<close> does
  not: for an upstream answer with status 500 it returns the status 500 and stores the
  response under the upstream URL, where the handler of \<^verbatim>\<open>src/index.ts\<close> stores nothing.
\<close>

theorem part_001_caches_error_response:
  "status (fst (fetch_part_001
     \<lparr>cache_match = (\<lambda>u. None),
      upstream_fetch = (\<lambda>u. Resolved \<lparr>status = 500, headers = no_headers, body = Some ''error''\<rparr>),
      number_beyond_safe = (\<lambda>n. [])\<rparr>
     \<lparr>CORS_ORIGIN = ''*'', CACHE_TTL = None, UPSTREAM = ''https://upstream.example/query''\<rparr>
     \<lparr>http_method = ''GET'', pathname = ''/'', searchParams = [],
      origin_header = None\<rparr>)) = 500 \<and>
   map_option status
     (cache_after (\<lambda>u. None)
        (snd (fetch_part_001
           \<lparr>cache_match = (\<lambda>u. None),
            upstream_fetch = (\<lambda>u. Resolved \<lparr>status = 500, headers = no_headers, body = Some ''error''\<rparr>),
            number_beyond_safe = (\<lambda>n. [])\<rparr>
           \<lparr>CORS_ORIGIN = ''*'', CACHE_TTL = None, UPSTREAM = ''https://upstream.example/query''\<rparr>
           \<lparr>http_method = ''GET'', pathname = ''/'', searchParams = [],
            origin_header = None\<rparr>))
        \<lparr>upstream_base = ''https://upstream.example/query'',
         upstream_search = [(''f'', ''geojson''), (''returnGeometry'', ''true''),
           (''resultRecordCount'', ''200''), (''outFields'', ''*'')]\<rparr>) = Some 500 \<and>
   map_option status
     (cache_after (\<lambda>u. None)
        (snd (fetch
           \<lparr>cache_match = (\<lambda>u. None),
            upstream_fetch = (\<lambda>u. Resolved \<lparr>status = 500, headers = no_headers, body = Some ''error''\<rparr>),
            number_beyond_safe = (\<lambda>n. [])\<rparr>
           \<lparr>CORS_ORIGIN = ''*'', CACHE_TTL = None,
            UPSTREAM_FLOOD = ''https://upstream.example/query'',
            UPSTREAM_WATER = ''https://water.example/query''\<rparr>
           \<lparr>http_method = ''GET'', pathname = ''/'', searchParams = [],
            origin_header = None\<rparr>))
        \<lparr>upstream_base = ''https://upstream.example/query'',
         upstream_search = [(''f'', ''geojson''), (''returnGeometry'', ''true''),
           (''outFields'', ''*''), (''where'', ''1=1''), (''resultRecordCount'', ''500'')]\<rparr>) = None"
  by (simp add: evals fetch_part_001_def)

text \<open>
  C2: a default-eligible parameter that the inbound query lacks is forwarded with its
  default. The handler of \<^verbatim>\<open>src/index.ts\<close> does so for the five parameters
  (\<open>applyDefaults_fills\<close>); the handler of \<^verbatim>\<open>src/unnamed/part_001\<close> forwards an empty
  inbound query without the parameter \<^verbatim>\<open>where\<close>, where the handler of \<^verbatim>\<open>src/index.ts\<close>
  forwards \<^verbatim>\<open>where=1=1\<close>.
\<close>

theorem part_001_forwards_no_where:
  "snd (fetch_part_001
     \<lparr>cache_match = (\<lambda>u. None), upstream_fetch = (\<lambda>u. Rejected),
      number_beyond_safe = (\<lambda>n. [])\<rparr>
     \<lparr>CORS_ORIGIN = ''*'', CACHE_TTL = None, UPSTREAM = ''https://upstream.example/query''\<rparr>
     \<lparr>http_method = ''GET'', pathname = ''/'', searchParams = [],
      origin_header = None\<rparr>) =
   [Cache_match
      \<lparr>upstream_base = ''https://upstream.example/query'',
       upstream_search = [(''f'', ''geojson''), (''returnGeometry'', ''true''),
         (''resultRecordCount'', ''200''), (''outFields'', ''*'')]\<rparr>,
    Upstream_fetch
      \<lparr>upstream_base = ''https://upstream.example/query'',
       upstream_search = [(''f'', ''geojson''), (''returnGeometry'', ''true''),
         (''resultRecordCount'', ''200''), (''outFields'', ''*'')]\<rparr>] \<and>
   snd (fetch
     \<lparr>cache_match = (\<lambda>u. None), upstream_fetch = (\<lambda>u. Rejected),
      number_beyond_safe = (\<lambda>n. [])\<rparr>
     \<lparr>CORS_ORIGIN = ''*'', CACHE_TTL = None,
      UPSTREAM_FLOOD = ''https://upstream.example/query'',
      UPSTREAM_WATER = ''https://water.example/query''\<rparr>
     \<lparr>http_method = ''GET'', pathname = ''/'', searchParams = [],
      origin_header = None\<rparr>) =
   [Cache_match
      \<lparr>upstream_base = ''https://upstream.example/query'',
       upstream_search = [(''f'', ''geojson''), (''returnGeometry'', ''true''),
         (''outFields'', ''*''), (''where'', ''1=1''), (''resultRecordCount'', ''500'')]\<rparr>,
    Upstream_fetch
      \<lparr>upstream_base = ''https://upstream.example/query'',
       upstream_search = [(''f'', ''geojson''), (''returnGeometry'', ''true''),
         (''outFields'', ''*''), (''where'', ''1=1''), (''resultRecordCount'', ''500'')]\<rparr>]"
  by (simp add: evals fetch_part_001_def)

end
